theory Spec2Isabelle
  imports Complex_Main
begin

section \<open>Python primitives used by the reward server\<close>

type_synonym path = string

text \<open>Frames are opaque: the sampler only copies and repeats them.\<close>

type_synonym frame = nat

text \<open>
  The exception classes the handlers of \<^verbatim>\<open>server.py\<close> tell apart:
  \<^verbatim>\<open>HTTPException(status_code)\<close>, \<^verbatim>\<open>asyncio.TimeoutError\<close>, and every other
  subclass of \<^verbatim>\<open>Exception\<close> (with its message).
\<close>

datatype py_exception = HTTPException nat | TimeoutError | Exception string

text \<open>
  \<^verbatim>\<open>int(round(x))\<close>: Python 3 rounds to the nearest integer and sends a tie to the
  even neighbour. The argument is the exact quotient; the source computes it as a float,
  which agrees with the exact value on every half-integer below \<open>2^52\<close>.
\<close>

definition py_round :: "real \<Rightarrow> int" where
  "py_round x =
     (let f = \<lfloor>x\<rfloor>; d = x - of_int f
      in if d < 1 / 2 then f
         else if 1 / 2 < d then f + 1
         else if even f then f else f + 1)"

text \<open>
  \<^verbatim>\<open>xs[start:end]\<close>: a negative bound counts from the end, and both bounds are
  clamped to the list.
\<close>

definition slice_bound :: "int \<Rightarrow> int \<Rightarrow> nat" where
  "slice_bound n i = nat (if i < 0 then max (i + n) 0 else min i n)"

definition py_slice :: "'a list \<Rightarrow> int \<Rightarrow> int \<Rightarrow> 'a list" where
  "py_slice xs start end =
     (let n = int (length xs); s = slice_bound n start; e = slice_bound n end
      in take (e - s) (drop s xs))"

text \<open>\<^verbatim>\<open>[x] * k\<close>: the empty list when \<open>k \<le> 0\<close>.\<close>

definition py_repeat :: "'a \<Rightarrow> int \<Rightarrow> 'a list" where
  "py_repeat x k = replicate (nat k) x"

section \<open>Frame sampler: \<^verbatim>\<open>load_video_frame_sequences\<close>\<close>

text \<open>
  What \<^verbatim>\<open>cv2.VideoCapture\<close> and the read loop give for a path: the capture does not
  open, or the loop ends with the frames read so far (each already resized and converted),
  or a call in the loop raises.
\<close>

datatype capture = NotOpened | Decoded "frame list" | DecodeRaises py_exception

text \<open>Lines 411 to 414: a short clip is extended with copies of its last frame.\<close>

definition pad_frames :: "frame list \<Rightarrow> int \<Rightarrow> frame list" where
  "pad_frames processed_frames frame_count =
     (let total_frames = int (length processed_frames)
      in if total_frames < frame_count
         then processed_frames @ py_repeat (last processed_frames) (frame_count - total_frames)
         else processed_frames)"

text \<open>Lines 416 to 426: the start index of every window.\<close>

definition start_indices :: "int \<Rightarrow> int \<Rightarrow> int \<Rightarrow> int list" where
  "start_indices total_frames frame_count sequence_count =
     (if sequence_count \<le> 1 \<or> total_frames \<le> frame_count then [0]
      else let max_start = max (total_frames - frame_count) 0
           in if sequence_count = 1 \<or> max_start = 0 then [0]
              else map (\<lambda>i. py_round (of_int (i * max_start) / of_int (sequence_count - 1)))
                     [0..sequence_count - 1])"

text \<open>Lines 430 to 433: one window, extended with its last frame when the slice is short.\<close>

definition window :: "frame list \<Rightarrow> int \<Rightarrow> int \<Rightarrow> frame list" where
  "window processed_frames frame_count start =
     (let seq = py_slice processed_frames start (start + frame_count)
      in if int (length seq) < frame_count \<and> seq \<noteq> []
         then seq @ py_repeat (last seq) (frame_count - int (length seq))
         else seq)"

text \<open>Lines 409 to 436, for a non-empty list of decoded frames.\<close>

definition sample_windows :: "frame list \<Rightarrow> int \<Rightarrow> int \<Rightarrow> frame list list" where
  "sample_windows processed_frames frame_count sequence_count =
     (let padded = pad_frames processed_frames frame_count;
          total_frames = int (length padded)
      in map (window padded frame_count)
           (start_indices total_frames frame_count sequence_count))"

definition load_video_frame_sequences ::
  "bool \<Rightarrow> capture \<Rightarrow> int \<Rightarrow> int \<Rightarrow> py_exception + frame list list" where
  "load_video_frame_sequences cv2_available cap frame_count sequence_count =
     (if \<not> cv2_available then Inr []
      else case cap of
             NotOpened \<Rightarrow> Inr []
           | DecodeRaises e \<Rightarrow> Inl e
           | Decoded processed_frames \<Rightarrow>
               if processed_frames = [] then Inr []
               else Inr (sample_windows processed_frames frame_count sequence_count))"

section \<open>Environment, model registry and observable state\<close>

text \<open>
  The optional imports at the top of \<^verbatim>\<open>server.py\<close>: each flag tells whether the
  module was imported (\<^verbatim>\<open>torch is not None\<close>, \<^verbatim>\<open>cv2 is not None\<close>).
\<close>

record modules =
  SAM2_AVAILABLE :: bool
  TRANSFORMERS_AVAILABLE :: bool
  torch_available :: bool
  cv2_available :: bool
  cuda_available :: bool

text \<open>
  The outcome of every library call inside the \<^verbatim>\<open>try\<close> block of
  \<^verbatim>\<open>segment_uploaded_video\<close>, in the order of the source. \<open>None\<close> in an
  \<open>option\<close> field means the call returns; \<open>Some e\<close> or \<open>Inl e\<close> means it raises \<open>e\<close>.
\<close>

record seg_steps =
  cap_is_opened :: "py_exception + bool"
  extract_frames :: "py_exception + nat"
  init_state :: "py_exception option"
  imread_first :: "py_exception + bool"
  generate_masks :: "py_exception + nat list"
  add_points :: "py_exception option"
  propagate_in_video :: "py_exception option"
  segmented_tempfile :: "py_exception + path"
  render_video :: "py_exception option"

record env =
  mods :: modules
  VIDEO_CLASS_NAMES :: "string list"
  VIDEO_CLASS_FRAME_COUNT :: int
  video_capture :: "path \<Rightarrow> capture"
  build_sam2_video_predictor_hf :: "py_exception option"
  SAM2AutomaticMaskGenerator :: "py_exception option"
  processor_from_pretrained :: "py_exception option"
  classifier_from_pretrained :: "py_exception option"
  classifier_to_device :: "py_exception option"
  classifier_logits :: "frame list \<Rightarrow> py_exception + real list"
  seg :: seg_steps
  os_remove :: "path \<Rightarrow> py_exception option"
  analysis_start :: real
  analysis_end :: real

text \<open>
  What a call leaves behind: the temporary files on disk (each with the number of bytes
  written to it by \<^verbatim>\<open>tmp.write\<close>), the module globals that cache the models (an
  object is named by the number of objects built before it), and the calls and log lines
  a test can observe.
\<close>

datatype event =
    Loading_SAM2
  | SAM2_ready
  | Loading_VideoMAE
  | VideoMAE_ready
  | Segment_called path
  | Classify_called path
  | Classifier_run "frame list"
  | Video_received int nat int
  | Score_logged int nat real real int
  | Removed path
  | Remove_failed path

record world =
  files :: "path \<rightharpoonup> nat"
  events :: "event list"
  objects :: nat
  sam2_predictor :: "nat option"
  sam2_mask_generator :: "nat option"
  sam2_device :: "string option"
  video_processor :: "nat option"
  video_classifier :: "nat option"
  video_device :: "string option"

definition emit :: "event \<Rightarrow> world \<Rightarrow> world" where
  "emit e w = w\<lparr>events := events w @ [e]\<rparr>"

definition torch_device :: "env \<Rightarrow> string" where
  "torch_device env = (if cuda_available (mods env) then ''cuda'' else ''cpu'')"

text \<open>
  \<^verbatim>\<open>get_sam2_components\<close> run by one thread: the lock is free, so the \<^verbatim>\<open>with\<close>
  block runs at once. An exception leaves the globals assigned so far. The two
  \<^verbatim>\<open>logger.info\<close> lines of the block are the events \<open>Loading_SAM2\<close> and \<open>SAM2_ready\<close>.
\<close>

definition get_sam2_components :: "env \<Rightarrow> world \<Rightarrow> (py_exception + nat option \<times> nat option) \<times> world" where
  "get_sam2_components env w =
     (if \<not> SAM2_AVAILABLE (mods env) \<or> \<not> torch_available (mods env) \<or> \<not> cv2_available (mods env)
      then (Inl (Exception ''SAM2 dependencies are not available''), w)
      else if sam2_predictor w = None then
        (let w1 = emit Loading_SAM2 w
         in case build_sam2_video_predictor_hf env of
              Some e \<Rightarrow> (Inl e, w1)
            | None \<Rightarrow>
                (let w2 = w1\<lparr>sam2_predictor := Some (objects w1), objects := Suc (objects w1)\<rparr>
                 in case SAM2AutomaticMaskGenerator env of
                      Some e \<Rightarrow> (Inl e, w2)
                    | None \<Rightarrow>
                        (let w3 = w2\<lparr>sam2_mask_generator := Some (objects w2), objects := Suc (objects w2)\<rparr>;
                             w4 = emit SAM2_ready (w3\<lparr>sam2_device := Some (torch_device env)\<rparr>)
                         in (Inr (sam2_predictor w4, sam2_mask_generator w4), w4))))
      else (Inr (sam2_predictor w, sam2_mask_generator w), w))"

text \<open>\<^verbatim>\<open>get_video_classifier_components\<close>, likewise.\<close>

definition get_video_classifier_components ::
  "env \<Rightarrow> world \<Rightarrow> (py_exception + nat option \<times> nat option \<times> string option) \<times> world" where
  "get_video_classifier_components env w =
     (if \<not> TRANSFORMERS_AVAILABLE (mods env) \<or> \<not> torch_available (mods env)
      then (Inl (Exception ''Video classifier dependencies are not available''), w)
      else if video_classifier w = None then
        (let w1 = emit Loading_VideoMAE w
         in case processor_from_pretrained env of
              Some e \<Rightarrow> (Inl e, w1)
            | None \<Rightarrow>
                (let w2 = w1\<lparr>video_processor := Some (objects w1), objects := Suc (objects w1)\<rparr>
                 in case classifier_from_pretrained env of
                      Some e \<Rightarrow> (Inl e, w2)
                    | None \<Rightarrow>
                        (let w3 = w2\<lparr>video_classifier := Some (objects w2), objects := Suc (objects w2)\<rparr>
                         in case classifier_to_device env of
                              Some e \<Rightarrow> (Inl e, w3)
                            | None \<Rightarrow>
                                (let w4 = emit VideoMAE_ready (w3\<lparr>video_device := Some (torch_device env)\<rparr>)
                                 in (Inr (video_processor w4, video_classifier w4, video_device w4), w4)))))
      else (Inr (video_processor w, video_classifier w, video_device w), w))"

section \<open>Segmentation stage: \<^verbatim>\<open>segment_uploaded_video\<close>\<close>

text \<open>
  Lines 242 to 352, the body of the \<^verbatim>\<open>try\<close> block: each call either raises, or makes
  the function return \<^verbatim>\<open>None\<close> early, or lets it go on. The output file is created
  by \<^verbatim>\<open>NamedTemporaryFile(delete=False)\<close> before the frames are rendered into it.
\<close>

definition segment_try_body :: "env \<Rightarrow> path \<Rightarrow> world \<Rightarrow> (py_exception + path option) \<times> world" where
  "segment_try_body env input_path w =
     (case cap_is_opened (seg env) of
        Inl e \<Rightarrow> (Inl e, w)
      | Inr opened \<Rightarrow>
          if \<not> opened then (Inr None, w)
          else case extract_frames (seg env) of
            Inl e \<Rightarrow> (Inl e, w)
          | Inr frame_files \<Rightarrow>
              if frame_files = 0 then (Inr None, w)
              else case init_state (seg env) of
                Some e \<Rightarrow> (Inl e, w)
              | None \<Rightarrow>
                  (case imread_first (seg env) of
                     Inl e \<Rightarrow> (Inl e, w)
                   | Inr first_frame \<Rightarrow>
                       if \<not> first_frame then (Inr None, w)
                       else case generate_masks (seg env) of
                         Inl e \<Rightarrow> (Inl e, w)
                       | Inr masks \<Rightarrow>
                           if masks = [] then (Inr None, w)
                           else case add_points (seg env) of
                             Some e \<Rightarrow> (Inl e, w)
                           | None \<Rightarrow>
                               (case propagate_in_video (seg env) of
                                  Some e \<Rightarrow> (Inl e, w)
                                | None \<Rightarrow>
                                    (case segmented_tempfile (seg env) of
                                       Inl e \<Rightarrow> (Inl e, w)
                                     | Inr output_path \<Rightarrow>
                                         (let w1 = w\<lparr>files := (files w)(output_path \<mapsto> 0)\<rparr>
                                          in case render_video (seg env) of
                                               Some e \<Rightarrow> (Inl e, w1)
                                             | None \<Rightarrow> (Inr (Some output_path), w1))))))"

text \<open>
  The whole function: the availability guard, the guarded call of
  \<^verbatim>\<open>get_sam2_components\<close>, and \<^verbatim>\<open>except Exception\<close> around the body.
\<close>

definition segment_uploaded_video :: "env \<Rightarrow> path \<Rightarrow> world \<Rightarrow> (py_exception + path option) \<times> world" where
  "segment_uploaded_video env input_path w0 =
     (let w = emit (Segment_called input_path) w0
      in if \<not> SAM2_AVAILABLE (mods env) \<or> \<not> torch_available (mods env) \<or> \<not> cv2_available (mods env)
         then (Inr None, w)
         else case get_sam2_components env w of
                (Inl e, w1) \<Rightarrow> (Inr None, w1)
              | (Inr components, w1) \<Rightarrow>
                  (case segment_try_body env input_path w1 of
                     (Inl e, w2) \<Rightarrow> (Inr None, w2)
                   | (Inr output, w2) \<Rightarrow> (Inr output, w2)))"

section \<open>Classification stage: \<^verbatim>\<open>classify_segmented_video\<close>\<close>

text \<open>\<^verbatim>\<open>torch.softmax(logits, dim=-1)\<close> on the one row of the batch, over the reals.\<close>

definition softmax :: "real list \<Rightarrow> real list" where
  "softmax logits = map (\<lambda>x. exp x / sum_list (map exp logits)) logits"

text \<open>\<^verbatim>\<open>names.index(x)\<close>, called only when \<open>x\<close> is in the list.\<close>

fun list_index :: "'a list \<Rightarrow> 'a \<Rightarrow> nat" where
  "list_index [] x = 0"
| "list_index (y # ys) x = (if y = x then 0 else Suc (list_index ys x))"

text \<open>
  Lines 469 to 474: the score of one window from the logits of the classifier. Indexing
  past the last class and the maximum of an empty tensor raise.
\<close>

definition window_score :: "string list \<Rightarrow> real list \<Rightarrow> py_exception + real" where
  "window_score names logits =
     (let probs = softmax logits
      in if ''real'' \<in> set names then
           (let real_idx = list_index names ''real''
            in if real_idx < length probs then Inr (probs ! real_idx)
               else Inl (Exception ''IndexError''))
         else if probs = [] then Inl (Exception ''RuntimeError'')
         else Inr (Max (set probs)))"

text \<open>Lines 461 to 475: the loop over the windows; an empty window is skipped.\<close>

fun score_windows ::
  "env \<Rightarrow> frame list list \<Rightarrow> real list \<Rightarrow> world \<Rightarrow> (py_exception + real list) \<times> world" where
  "score_windows env [] scores w = (Inr scores, w)"
| "score_windows env (frames # rest) scores w =
     (if frames = [] then score_windows env rest scores w
      else let w1 = emit (Classifier_run frames) w
           in case classifier_logits env frames of
                Inl e \<Rightarrow> (Inl e, w1)
              | Inr logits \<Rightarrow>
                  (case window_score (VIDEO_CLASS_NAMES env) logits of
                     Inl e \<Rightarrow> (Inl e, w1)
                   | Inr score \<Rightarrow> score_windows env rest (scores @ [score]) w1))"

definition classify_segmented_video :: "env \<Rightarrow> path \<Rightarrow> world \<Rightarrow> (py_exception + real) \<times> world" where
  "classify_segmented_video env video_path w0 =
     (let w = emit (Classify_called video_path) w0
      in if \<not> TRANSFORMERS_AVAILABLE (mods env) \<or> \<not> torch_available (mods env) then (Inr 0, w)
         else case load_video_frame_sequences (cv2_available (mods env)) (video_capture env video_path)
                     (VIDEO_CLASS_FRAME_COUNT env) 4 of
                Inl e \<Rightarrow> (Inl e, w)
              | Inr frame_sequences \<Rightarrow>
                  if frame_sequences = [] then (Inr 0, w)
                  else case get_video_classifier_components env w of
                         (Inl e, w1) \<Rightarrow> (Inr 0, w1)
                       | (Inr components, w1) \<Rightarrow>
                           (case score_windows env frame_sequences [] w1 of
                              (Inl e, w2) \<Rightarrow> (Inr 0, w2)
                            | (Inr scores, w2) \<Rightarrow>
                                if scores \<noteq> [] then (Inr (sum_list scores / real (length scores)), w2)
                                else (Inr 0, w2)))"

section \<open>Pipeline orchestrator: \<^verbatim>\<open>upload_video\<close>\<close>

definition MAX_FILE_SIZE :: nat where
  "MAX_FILE_SIZE = 100 * 1024 * 1024"

text \<open>The argument of \<^verbatim>\<open>file.read\<close> in the streaming loop.\<close>

definition CHUNK_SIZE :: nat where
  "CHUNK_SIZE = 1024 * 1024"

text \<open>
  One \<^verbatim>\<open>await asyncio.wait_for(file.read(1024 * 1024), timeout=10)\<close>: a chunk of so
  many bytes (none at the end of the stream), a timeout, or another exception.
\<close>

datatype read_event = Chunk nat | Read_timeout | Read_raises py_exception

text \<open>The multipart part \<^verbatim>\<open>file\<close>: its declared content type, its name and its reads.\<close>

record UploadFile =
  content_type :: "string option"
  file_name :: "string option"
  reads :: "read_event list"

record UploadResponse =
  status :: string
  filename :: "string option"
  episode_number :: "int option"
  reward :: real

text \<open>
  The body sent to the client is the serialised \<^verbatim>\<open>UploadResponse\<close>
  (\<^verbatim>\<open>response_model=UploadResponse\<close>): one key per declared field.
\<close>

datatype json = JNull | JString string | JInt int | JFloat real

definition response_body :: "UploadResponse \<Rightarrow> (string \<times> json) list" where
  "response_body r =
     [(''status'', JString (status r)),
      (''filename'', (case filename r of None \<Rightarrow> JNull | Some n \<Rightarrow> JString n)),
      (''episode_number'', (case episode_number r of None \<Rightarrow> JNull | Some n \<Rightarrow> JInt n)),
      (''reward'', JFloat (reward r))]"

text \<open>
  \<^verbatim>\<open>try: os.remove(p) except Exception: logger.warning(...)\<close>, as both cleanup
  blocks have it.
\<close>

definition remove_logged :: "env \<Rightarrow> path \<Rightarrow> world \<Rightarrow> world" where
  "remove_logged env p w =
     (case os_remove env p of
        Some e \<Rightarrow> emit (Remove_failed p) w
      | None \<Rightarrow> emit (Removed p) (w\<lparr>files := (files w)(p := None)\<rparr>))"

text \<open>\<^verbatim>\<open>if p and os.path.exists(p)\<close> in front of each removal.\<close>

definition cleanup :: "env \<Rightarrow> path option \<Rightarrow> world \<Rightarrow> world" where
  "cleanup env p w =
     (case p of
        None \<Rightarrow> w
      | Some name \<Rightarrow> if name \<noteq> [] \<and> files w name \<noteq> None then remove_logged env name w else w)"

text \<open>
  Lines 560 to 574: the streaming loop. Every chunk is written before the running total
  is compared with the maximum.
\<close>

fun receive_chunks :: "path \<Rightarrow> read_event list \<Rightarrow> nat \<Rightarrow> world \<Rightarrow> (py_exception + nat) \<times> world" where
  "receive_chunks tmp_path [] total_size w = (Inr total_size, w)"
| "receive_chunks tmp_path (Read_timeout # rest) total_size w = (Inl (HTTPException 408), w)"
| "receive_chunks tmp_path (Read_raises e # rest) total_size w = (Inl e, w)"
| "receive_chunks tmp_path (Chunk n # rest) total_size w =
     (if n = 0 then (Inr total_size, w)
      else let w1 = w\<lparr>files := (files w)(tmp_path \<mapsto> (case files w tmp_path of None \<Rightarrow> n | Some k \<Rightarrow> k + n))\<rparr>;
               total_size1 = total_size + n
           in if MAX_FILE_SIZE < total_size1 then (Inl (HTTPException 413), w1)
              else receive_chunks tmp_path rest total_size1 w1)"

text \<open>
  Lines 576 to 627: what runs once the upload is on disk. The inner \<^verbatim>\<open>try\<close> sends
  every exception of the two stages to reward \<open>0.0\<close>; its \<^verbatim>\<open>finally\<close> logs the score
  with the analysis time and removes the segmented clip.
\<close>

definition analyse_upload :: "env \<Rightarrow> int \<Rightarrow> int \<Rightarrow> path \<Rightarrow> nat \<Rightarrow> world \<Rightarrow> UploadResponse \<times> world" where
  "analyse_upload env episode attempt tmp_path total_size w0 =
     (let w1 = emit (Video_received episode total_size attempt) w0;
          (segmented, w2) = segment_uploaded_video env tmp_path w1;
          segmented_path = (case segmented of Inl e \<Rightarrow> None | Inr p \<Rightarrow> p);
          (classified, w3) =
            (case segmented of
               Inl e \<Rightarrow> (Inl e, w2)
             | Inr p \<Rightarrow>
                 (let classification_target =
                        (case p of None \<Rightarrow> tmp_path | Some sp \<Rightarrow> if sp \<noteq> [] then sp else tmp_path)
                  in classify_segmented_video env classification_target w2));
          reward_value = (case classified of Inl e \<Rightarrow> 0 | Inr r \<Rightarrow> r);
          analysis_time = analysis_end env - analysis_start env;
          w4 = emit (Score_logged episode total_size reward_value analysis_time attempt) w3;
          w5 = cleanup env segmented_path w4
      in (\<lparr>status = ''ok'', filename = None, episode_number = Some episode, reward = reward_value\<rparr>, w5))"

text \<open>The outermost handlers: an \<^verbatim>\<open>HTTPException\<close> is re-raised, anything else becomes 500.\<close>

definition outer_handler :: "py_exception \<Rightarrow> py_exception" where
  "outer_handler e = (case e of HTTPException c \<Rightarrow> HTTPException c | _ \<Rightarrow> HTTPException 500)"

text \<open>
  The endpoint. \<open>upload_tempfile\<close> is the outcome of
  \<^verbatim>\<open>tempfile.NamedTemporaryFile(delete=False, suffix=".mp4")\<close>; the form fields
  \<^verbatim>\<open>attempt_number\<close> and \<^verbatim>\<open>file_size\<close> may be left out.
\<close>

definition upload_video ::
  "env \<Rightarrow> (py_exception + path) \<Rightarrow> int \<Rightarrow> UploadFile \<Rightarrow> int option \<Rightarrow> int option \<Rightarrow> world
     \<Rightarrow> (py_exception + UploadResponse) \<times> world" where
  "upload_video env upload_tempfile episode file attempt_field file_size_field w =
     (let attempt_number = (case attempt_field of None \<Rightarrow> 1 | Some a \<Rightarrow> a);
          file_size = (case file_size_field of None \<Rightarrow> 0 | Some n \<Rightarrow> n)
      in if int MAX_FILE_SIZE < file_size then (Inl (HTTPException 413), w)
         else if (case content_type file of
                    None \<Rightarrow> False
                  | Some ct \<Rightarrow> ct \<noteq> [] \<and> take (length ''video/'') ct \<noteq> ''video/'')
         then (Inl (HTTPException 400), w)
         else case upload_tempfile of
                Inl e \<Rightarrow> (Inl (outer_handler e), w)
              | Inr tmp_path \<Rightarrow>
                  (let w1 = w\<lparr>files := (files w)(tmp_path \<mapsto> 0)\<rparr>;
                       (received, w2) = receive_chunks tmp_path (reads file) 0 w1;
                       (result, w3) =
                         (case received of
                            Inl e \<Rightarrow> (Inl (outer_handler e), w2)
                          | Inr total_size \<Rightarrow>
                              (let (response, w') =
                                     analyse_upload env episode attempt_number tmp_path total_size w2
                               in (Inr response, w')))
                   in (result, cleanup env (Some tmp_path) w3)))"

section \<open>The specification's formulas\<close>

text \<open>
  The start index of window \<open>i\<close> as the specification gives it:
  \<open>round(i * max_start / (window_count - 1))\<close>.
\<close>

definition evenly_spaced_start :: "int \<Rightarrow> int \<Rightarrow> int \<Rightarrow> int" where
  "evenly_spaced_start max_start window_count i =
     py_round (of_int (i * max_start) / of_int (window_count - 1))"

text \<open>
  The score of one window as the specification gives it: the softmax probability of the
  class named \<open>real\<close> when the label set has it, the largest probability otherwise.
\<close>

definition spec_window_score :: "string list \<Rightarrow> real list \<Rightarrow> real" where
  "spec_window_score names logits =
     (if ''real'' \<in> set names then softmax logits ! list_index names ''real''
      else Max (set (softmax logits)))"

section \<open>Frame sampler: windows and padding\<close>

lemma py_round_of_int: "py_round (of_int n) = n"
  by (simp add: py_round_def)

lemma py_round_bounds: "\<lfloor>x\<rfloor> \<le> py_round x \<and> py_round x \<le> \<lfloor>x\<rfloor> + 1"
  by (simp add: py_round_def Let_def)

lemma py_round_mono:
  assumes "x \<le> y"
  shows "py_round x \<le> py_round y"
proof (cases "\<lfloor>x\<rfloor> = \<lfloor>y\<rfloor>")
  case True
  then have "x - of_int \<lfloor>x\<rfloor> \<le> y - of_int \<lfloor>y\<rfloor>"
    using assms by simp
  with True show ?thesis
    by (auto simp: py_round_def Let_def)
next
  case False
  have "\<lfloor>x\<rfloor> \<le> \<lfloor>y\<rfloor>"
    using assms by (rule floor_mono)
  with False have "\<lfloor>x\<rfloor> + 1 \<le> \<lfloor>y\<rfloor>"
    by simp
  then show ?thesis
    using py_round_bounds [of x] py_round_bounds [of y] by linarith
qed

lemma py_slice_inside:
  assumes "0 \<le> s" "0 \<le> k" "s + k \<le> int (length xs)"
  shows "py_slice xs s (s + k) = take (nat k) (drop (nat s) xs)"
proof -
  have "slice_bound (int (length xs)) s = nat s"
    using assms by (simp add: slice_bound_def)
  moreover have "slice_bound (int (length xs)) (s + k) = nat s + nat k"
    using assms by (simp add: slice_bound_def nat_add_distrib)
  ultimately show ?thesis
    by (simp add: py_slice_def Let_def)
qed

lemma window_inside:
  assumes "0 \<le> s" "0 \<le> k" "s + k \<le> int (length xs)"
  shows "window xs k s = take (nat k) (drop (nat s) xs)"
proof -
  have "int (length (take (nat k) (drop (nat s) xs))) = k"
    using assms by simp
  then show ?thesis
    using assms by (simp add: window_def py_slice_inside Let_def)
qed


lemma evenly_spaced_start_mono:
  assumes "0 \<le> m" "1 < sc" "i \<le> j"
  shows "evenly_spaced_start m sc i \<le> evenly_spaced_start m sc j"
proof -
  have "i * m \<le> j * m"
    using assms by (simp add: mult_right_mono)
  then have "(of_int (i * m) :: real) \<le> of_int (j * m)"
    by (simp only: of_int_le_iff)
  moreover have "(0::real) < of_int (sc - 1)"
    using assms by simp
  ultimately have "(of_int (i * m) :: real) / of_int (sc - 1) \<le> of_int (j * m) / of_int (sc - 1)"
    by (simp only: divide_le_cancel) simp
  then show ?thesis
    unfolding evenly_spaced_start_def by (rule py_round_mono)
qed

lemma evenly_spaced_start_first: "evenly_spaced_start m sc 0 = 0"
  using py_round_of_int [of 0] by (simp add: evenly_spaced_start_def)

lemma evenly_spaced_start_last:
  assumes "1 < sc"
  shows "evenly_spaced_start m sc (sc - 1) = m"
proof -
  have "(of_int ((sc - 1) * m) :: real) / of_int (sc - 1) = of_int m"
    using assms by simp
  then show ?thesis
    by (simp only: evenly_spaced_start_def py_round_of_int)
qed

lemma evenly_spaced_start_range:
  assumes "0 \<le> m" "1 < sc" "0 \<le> i" "i \<le> sc - 1"
  shows "0 \<le> evenly_spaced_start m sc i \<and> evenly_spaced_start m sc i \<le> m"
  using evenly_spaced_start_mono [OF assms(1,2,3)] evenly_spaced_start_mono [OF assms(1,2,4)]
  by (simp add: evenly_spaced_start_first evenly_spaced_start_last assms(2))

lemma start_indices_even:
  assumes "frame_count < total_frames" "1 < sc"
  shows "start_indices total_frames frame_count sc = map (evenly_spaced_start (total_frames - frame_count) sc) [0..sc - 1]"
  using assms by (simp add: start_indices_def Let_def evenly_spaced_start_def)

lemma sorted_evenly_spaced_starts:
  assumes "0 \<le> m" "1 < sc"
  shows "sorted (map (evenly_spaced_start m sc) [0..sc - 1])"
proof -
  have "sorted_wrt (\<lambda>i j. i \<le> j) [0..sc - 1]"
    using sorted_upto by simp
  then have "sorted_wrt (\<lambda>i j. evenly_spaced_start m sc i \<le> evenly_spaced_start m sc j) [0..sc - 1]"
    by (rule sorted_wrt_mono_rel [rotated]) (simp add: evenly_spaced_start_mono assms)
  then show ?thesis
    by (simp add: sorted_map)
qed

lemma hd_evenly_spaced_starts:
  assumes "1 < sc"
  shows "hd (map (evenly_spaced_start m sc) [0..sc - 1]) = 0"
proof -
  have "[0..sc - 1] = 0 # [1..sc - 1]"
    using assms by (simp add: upto_rec1)
  then show ?thesis
    by (simp add: evenly_spaced_start_first)
qed

lemma last_evenly_spaced_starts:
  assumes "1 < sc"
  shows "last (map (evenly_spaced_start m sc) [0..sc - 1]) = m"
proof -
  have "[0..sc - 1] = [0..sc - 1 - 1] @ [sc - 1]"
    using assms by (simp add: upto_rec2)
  then have "last (map (evenly_spaced_start m sc) [0..sc - 1]) = evenly_spaced_start m sc (sc - 1)"
    by simp
  then show ?thesis
    by (simp add: evenly_spaced_start_last assms)
qed

lemma sample_windows_even:
  assumes "0 \<le> fc" "fc < int (length fs)" "1 < sc"
  shows "sample_windows fs fc sc =
           map (\<lambda>s. take (nat fc) (drop (nat s) fs)) (map (evenly_spaced_start (int (length fs) - fc) sc) [0..sc - 1])"
proof -
  have pad: "pad_frames fs fc = fs"
    using assms by (simp add: pad_frames_def)
  have "map (window fs fc) (map (evenly_spaced_start (int (length fs) - fc) sc) [0..sc - 1])
        = map (\<lambda>s. take (nat fc) (drop (nat s) fs)) (map (evenly_spaced_start (int (length fs) - fc) sc) [0..sc - 1])"
  proof (rule map_cong [OF refl])
    fix s assume "s \<in> set (map (evenly_spaced_start (int (length fs) - fc) sc) [0..sc - 1])"
    then obtain i where "0 \<le> i" "i \<le> sc - 1" "s = evenly_spaced_start (int (length fs) - fc) sc i"
      by auto
    then have "0 \<le> s \<and> s \<le> int (length fs) - fc"
      using evenly_spaced_start_range [of "int (length fs) - fc" sc i] assms by simp
    then show "window fs fc s = take (nat fc) (drop (nat s) fs)"
      using assms by (simp add: window_inside)
  qed
  then show ?thesis
    using assms by (simp add: sample_windows_def pad start_indices_even)
qed


text \<open>
  Claim C4. For every list of decoded frames with more frames than the frame count (a
  count, so not negative) and a window count above one, the sampler returns exactly
  \<open>window_count\<close> windows, each made of exactly \<open>frame_count\<close> consecutive frames; window
  \<open>i\<close> starts at \<open>round(i * max_start / (window_count - 1))\<close> with
  \<open>max_start = total_frames - frame_count\<close>; the start indices lie in \<open>[0, max_start]\<close>,
  never decrease, begin at \<open>0\<close> and end at \<open>max_start\<close>.
\<close>

theorem even_windows:
  assumes "0 \<le> frame_count" "frame_count < int (length fs)" "1 < window_count"
  shows "let max_start = int (length fs) - frame_count;
             starts = map (evenly_spaced_start max_start window_count) [0..window_count - 1];
             windows = map (\<lambda>s. take (nat frame_count) (drop (nat s) fs)) starts
         in start_indices (int (length fs)) frame_count window_count = starts
          \<and> load_video_frame_sequences True (Decoded fs) frame_count window_count = Inr windows
          \<and> int (length windows) = window_count
          \<and> (\<forall>w \<in> set windows. int (length w) = frame_count)
          \<and> (\<forall>s \<in> set starts. 0 \<le> s \<and> s \<le> max_start)
          \<and> sorted starts \<and> hd starts = 0 \<and> last starts = max_start"
proof -
  define max_start where "max_start = int (length fs) - frame_count"
  define starts where "starts = map (evenly_spaced_start max_start window_count) [0..window_count - 1]"
  define windows where "windows = map (\<lambda>s. take (nat frame_count) (drop (nat s) fs)) starts"
  have m: "0 \<le> max_start"
    using assms by (simp add: max_start_def)
  have range: "0 \<le> s \<and> s \<le> max_start" if "s \<in> set starts" for s
  proof -
    from that obtain i where "0 \<le> i" "i \<le> window_count - 1" "s = evenly_spaced_start max_start window_count i"
      by (auto simp: starts_def)
    then show ?thesis
      using evenly_spaced_start_range [of max_start window_count i] m assms by simp
  qed
  have 1: "start_indices (int (length fs)) frame_count window_count = starts"
    using assms by (simp add: start_indices_even starts_def max_start_def)
  have "fs \<noteq> []"
    using assms by auto
  then have 2: "load_video_frame_sequences True (Decoded fs) frame_count window_count = Inr windows"
    using assms by (simp add: load_video_frame_sequences_def sample_windows_even windows_def starts_def max_start_def)
  have 3: "int (length windows) = window_count"
    using assms by (simp add: windows_def starts_def)
  have 4: "int (length w) = frame_count" if "w \<in> set windows" for w
  proof -
    from that obtain s where "s \<in> set starts" "w = take (nat frame_count) (drop (nat s) fs)"
      by (auto simp: windows_def)
    moreover have "nat frame_count \<le> length fs - nat s"
      using range [of s] \<open>s \<in> set starts\<close> assms by (simp add: max_start_def) linarith
    ultimately show ?thesis
      using assms by (simp add: min_absorb2)
  qed
  have 5: "sorted starts"
    unfolding starts_def using m assms(3) by (rule sorted_evenly_spaced_starts)
  have 6: "hd starts = 0"
    unfolding starts_def using assms(3) by (rule hd_evenly_spaced_starts)
  have 7: "last starts = max_start"
    unfolding starts_def using assms(3) by (rule last_evenly_spaced_starts)
  show ?thesis
    using 1 2 3 4 5 6 7 range
    unfolding Let_def max_start_def [symmetric] starts_def [symmetric] windows_def [symmetric]
    by blast
qed

text \<open>Seven frames, windows of three, four windows: the starts are 0, 1, 3, 4.\<close>

theorem even_windows_witness:
  "load_video_frame_sequences True (Decoded [10, 11, 12, 13, 14, 15, 16]) 3 4
     = Inr [[10, 11, 12], [11, 12, 13], [13, 14, 15], [14, 15, 16]]
   \<and> start_indices 7 3 4 = [0, 1, 3, 4]"
  using even_windows [of 3 "[10, 11, 12, 13, 14, 15, 16]" 4]
  by (simp add: Let_def evenly_spaced_start_def py_round_def upto.simps)

text \<open>
  Claim C5, as amended. For every clip with at least one decoded frame and fewer frames
  than the frame count, exactly one window is returned; it starts at index \<open>0\<close>, has
  exactly \<open>frame_count\<close> frames, and is the clip followed by copies of its last frame.
\<close>

theorem short_clip_padded:
  assumes "fs \<noteq> []" "int (length fs) < frame_count"
  shows "load_video_frame_sequences True (Decoded fs) frame_count window_count
           = Inr [fs @ replicate (nat frame_count - length fs) (last fs)]
         \<and> int (length (fs @ replicate (nat frame_count - length fs) (last fs))) = frame_count
         \<and> start_indices (int (length (pad_frames fs frame_count))) frame_count window_count = [0]"
proof -
  have pad: "pad_frames fs frame_count = fs @ replicate (nat frame_count - length fs) (last fs)"
    using assms by (simp add: pad_frames_def py_repeat_def nat_diff_distrib')
  have len: "int (length (pad_frames fs frame_count)) = frame_count"
    using assms by (simp add: pad)
  have st: "start_indices (int (length (pad_frames fs frame_count))) frame_count window_count = [0]"
    by (simp add: len start_indices_def)
  have "window (pad_frames fs frame_count) frame_count 0 = pad_frames fs frame_count"
    using window_inside [of 0 frame_count "pad_frames fs frame_count"] assms len by simp
  then have "sample_windows fs frame_count window_count = [pad_frames fs frame_count]"
    by (simp add: sample_windows_def Let_def st)
  then show ?thesis
    using assms pad len st by (simp add: load_video_frame_sequences_def)
qed

text \<open>Two frames padded to five.\<close>

theorem short_clip_padded_witness:
  "load_video_frame_sequences True (Decoded [7, 8]) 5 4 = Inr [[7, 8, 8, 8, 8]]"
  using short_clip_padded [of "[7, 8]" 5 4] by (simp add: numeral_eq_Suc)

text \<open>
  Claim C5 as stated covers the clip with no decoded frame, which is shorter than any
  positive frame count: there the guard of line 406 returns no window at all.
\<close>

theorem empty_clip_counterexample:
  "int (length ([] :: frame list)) < 16
   \<and> \<not> (\<exists>w. load_video_frame_sequences True (Decoded []) 16 4 = Inr [w])"
  by (simp add: load_video_frame_sequences_def)

end
